theory Spec2Isabelle
  imports Complex_Main "HOL-Library.Multiset" "HOL-Library.Sublist"
begin

section \<open>Zuber notebook: taxi rides, neighbourhoods and the weather test\<close>

text \<open>
  The program is the notebook \<^verbatim>\<open>Zuber_Project.ipynb\<close>: a linear script over three pandas
  tables. Its code cells are embedded below in the order of the notebook. Calls into pandas
  and scipy are embedded by what the called routine computes on the rows it is given; each
  such definition says which call it stands for.
\<close>

subsection \<open>Data model\<close>

text \<open>
  A pandas \<^verbatim>\<open>datetime64[ns]\<close> value is a count of nanoseconds since 1970-01-01 00:00:00.
  Rows are those of the three tables after cell 5 has parsed \<^verbatim>\<open>start_ts\<close>.
\<close>

type_synonym timestamp = int

record operator_row =
  company_name :: string
  trips_amount :: int

record neighborhood_row =
  dropoff_location_name :: string
  average_trips :: real

record ride_row =
  start_ts :: timestamp
  weather_conditions :: string
  duration_seconds :: real

text \<open>A date or date-time literal such as \<^verbatim>\<open>"2017-11-01"\<close>, already split into its fields.\<close>

datatype datestr =
  Date int int int
  | DateTime int int int int int int

subsection \<open>Calendar arithmetic behind \<^verbatim>\<open>pd.to_datetime\<close> and \<^verbatim>\<open>.dt.dayofweek\<close>\<close>

definition ns_per_second :: int where
  "ns_per_second = 1000000000"

definition ns_per_day :: int where
  "ns_per_day = 86400 * ns_per_second"

text \<open>Days from 1970-01-01 to the given proleptic Gregorian date (negative before it).\<close>

definition days_from_civil :: "int \<Rightarrow> int \<Rightarrow> int \<Rightarrow> int" where
  "days_from_civil y m d =
     (let y' = (if m \<le> 2 then y - 1 else y);
          era = y' div 400;
          yoe = y' - era * 400;
          mp = (m + 9) mod 12;
          doy = (153 * mp + 2) div 5 + d - 1;
          doe = yoe * 365 + yoe div 4 - yoe div 100 + doy
      in era * 146097 + doe - 719468)"

text \<open>\<^verbatim>\<open>pd.to_datetime\<close> of a literal: a date alone is midnight of that day.\<close>

fun to_datetime :: "datestr \<Rightarrow> timestamp" where
  "to_datetime (Date y m d) = days_from_civil y m d * ns_per_day"
| "to_datetime (DateTime y m d hh mm ss) =
     days_from_civil y m d * ns_per_day + ((hh * 60 + mm) * 60 + ss) * ns_per_second"

text \<open>The day number of a timestamp (its date), and the time elapsed since its midnight.\<close>

definition date_of :: "timestamp \<Rightarrow> int" where
  "date_of t = t div ns_per_day"

definition time_of_day :: "timestamp \<Rightarrow> int" where
  "time_of_day t = t mod ns_per_day"

text \<open>\<^verbatim>\<open>.dt.dayofweek\<close>: Monday is 0 and Sunday is 6; 1970-01-01 was a Thursday.\<close>

definition dayofweek :: "timestamp \<Rightarrow> int" where
  "dayofweek t = (date_of t + 3) mod 7"

text \<open>The ISO 8601 number of the weekday, Monday 1 to Sunday 7 (Python's \<^verbatim>\<open>isoweekday\<close>).\<close>

definition isoweekday :: "timestamp \<Rightarrow> int" where
  "isoweekday t = dayofweek t + 1"

subsection \<open>pandas operations on tables\<close>

text \<open>A table is the list of its rows; a column is the list of one field.\<close>

definition column :: "('r \<Rightarrow> 'c) \<Rightarrow> 'r list \<Rightarrow> 'c list" where
  "column f df = map f df"

text \<open>\<^verbatim>\<open>m1 & m2\<close> on boolean columns, and \<^verbatim>\<open>df[mask]\<close>: the rows whose mask entry is true.\<close>

definition mask_and :: "bool list \<Rightarrow> bool list \<Rightarrow> bool list" where
  "mask_and m1 m2 = map2 (\<and>) m1 m2"

definition boolean_index :: "'r list \<Rightarrow> bool list \<Rightarrow> 'r list" where
  "boolean_index df msk = map fst (filter snd (zip df msk))"

text \<open>
  \<^verbatim>\<open>df.sort_values(by=key, ascending=False)\<close>. pandas reverses the rows, sorts them
  ascending and reverses the result. The order it leaves among rows of equal key depends on
  the sorting routine; here equal rows keep their order, and no theorem below relies on it.
\<close>

definition sort_values_desc :: "('r \<Rightarrow> 'k::linorder) \<Rightarrow> 'r list \<Rightarrow> 'r list" where
  "sort_values_desc key df = rev (sort_key key (rev df))"

text \<open>
  \<^verbatim>\<open>df.head(n)\<close> is \<^verbatim>\<open>df[:n]\<close>: the first \<open>n\<close> rows, and for a negative \<open>n\<close> all rows
  but the last \<open>-n\<close>.
\<close>

definition head :: "int \<Rightarrow> 'r list \<Rightarrow> 'r list" where
  "head n df = (if 0 \<le> n then take (nat n) df else take (length df - nat (- n)) df)"

subsection \<open>Cell 11 and cell 13: ranking\<close>

text \<open>\<^verbatim>\<open>sorted_taxi_df = taxi_df.sort_values(by="trips_amount", ascending=False)\<close>\<close>

definition rank_by_count :: "operator_row list \<Rightarrow> operator_row list" where
  "rank_by_count operators = sort_values_desc trips_amount operators"

text \<open>
  \<^verbatim>\<open>neighborhood_df.sort_values(by="average_trips", ascending=False).head(10)\<close>, with the
  10 as the parameter \<open>n\<close>.
\<close>

definition top_n :: "neighborhood_row list \<Rightarrow> int \<Rightarrow> neighborhood_row list" where
  "top_n neighborhoods n = head n (sort_values_desc average_trips neighborhoods)"

subsection \<open>Cell 17: the window, the two samples\<close>

text \<open>
  The filter of cell 17 with its three constants as parameters:
  \<^verbatim>\<open>rides_df[(rides_df['start_ts'].dt.dayofweek == 5) &
           (rides_df['start_ts'] >= "2017-11-01") &
           (rides_df['start_ts'] <= "2017-11-30")]\<close>
  The two date literals are compared as timestamps.
\<close>

definition select_window :: "ride_row list \<Rightarrow> int \<Rightarrow> datestr \<Rightarrow> datestr \<Rightarrow> ride_row list" where
  "select_window rides day_of_week start_date end_date =
     boolean_index rides
       (mask_and
          (mask_and
             (map (\<lambda>t. dayofweek t = day_of_week) (column start_ts rides))
             (map (\<lambda>t. to_datetime start_date \<le> t) (column start_ts rides)))
          (map (\<lambda>t. t \<le> to_datetime end_date) (column start_ts rides)))"

definition rides_saturdays_of :: "ride_row list \<Rightarrow> ride_row list" where
  "rides_saturdays_of rides = select_window rides 5 (Date 2017 11 1) (Date 2017 11 30)"

text \<open>
  \<^verbatim>\<open>rides[rides['weather_conditions'] == 'Good']['duration_seconds']\<close> and the same for
  \<^verbatim>\<open>'Bad'\<close>: the pair (good, bad).
\<close>

definition partition_by_weather :: "ride_row list \<Rightarrow> real list \<times> real list" where
  "partition_by_weather rides =
     (column duration_seconds
        (boolean_index rides (map (\<lambda>w. w = ''Good'') (column weather_conditions rides))),
      column duration_seconds
        (boolean_index rides (map (\<lambda>w. w = ''Bad'') (column weather_conditions rides))))"

subsection \<open>Floating-point values with their special values\<close>

text \<open>
  A result of floating-point arithmetic is a number, an infinity or not-a-number. Rounding
  and overflow are not modelled: a finite result is the exact real, and zero has no sign
  (a division by zero takes the sign of its numerator). The operations follow IEEE 754 on
  the special values. \<open>feq\<close> is the comparison \<^verbatim>\<open>==\<close> of floats, under which not-a-number
  equals nothing, itself included.
\<close>

datatype fval = NaN | PosInf | NegInf | Fin real

fun fneg :: "fval \<Rightarrow> fval" where
  "fneg NaN = NaN"
| "fneg PosInf = NegInf"
| "fneg NegInf = PosInf"
| "fneg (Fin x) = Fin (- x)"

fun fabs :: "fval \<Rightarrow> fval" where
  "fabs NaN = NaN"
| "fabs PosInf = PosInf"
| "fabs NegInf = PosInf"
| "fabs (Fin x) = Fin \<bar>x\<bar>"

fun fadd :: "fval \<Rightarrow> fval \<Rightarrow> fval" where
  "fadd (Fin x) (Fin y) = Fin (x + y)"
| "fadd NaN y = NaN"
| "fadd x NaN = NaN"
| "fadd PosInf NegInf = NaN"
| "fadd NegInf PosInf = NaN"
| "fadd PosInf y = PosInf"
| "fadd x PosInf = PosInf"
| "fadd NegInf y = NegInf"
| "fadd x NegInf = NegInf"

definition fsub :: "fval \<Rightarrow> fval \<Rightarrow> fval" where
  "fsub x y = fadd x (fneg y)"

fun fmul :: "fval \<Rightarrow> fval \<Rightarrow> fval" where
  "fmul (Fin x) (Fin y) = Fin (x * y)"
| "fmul NaN y = NaN"
| "fmul x NaN = NaN"
| "fmul PosInf (Fin y) = (if y = 0 then NaN else if 0 < y then PosInf else NegInf)"
| "fmul NegInf (Fin y) = (if y = 0 then NaN else if 0 < y then NegInf else PosInf)"
| "fmul (Fin x) PosInf = (if x = 0 then NaN else if 0 < x then PosInf else NegInf)"
| "fmul (Fin x) NegInf = (if x = 0 then NaN else if 0 < x then NegInf else PosInf)"
| "fmul PosInf PosInf = PosInf"
| "fmul PosInf NegInf = NegInf"
| "fmul NegInf PosInf = NegInf"
| "fmul NegInf NegInf = PosInf"

fun fdiv :: "fval \<Rightarrow> fval \<Rightarrow> fval" where
  "fdiv (Fin x) (Fin y) =
     (if y = 0 then (if x = 0 then NaN else if 0 < x then PosInf else NegInf)
      else Fin (x / y))"
| "fdiv NaN y = NaN"
| "fdiv x NaN = NaN"
| "fdiv (Fin x) PosInf = Fin 0"
| "fdiv (Fin x) NegInf = Fin 0"
| "fdiv PosInf (Fin y) = (if 0 \<le> y then PosInf else NegInf)"
| "fdiv NegInf (Fin y) = (if 0 \<le> y then NegInf else PosInf)"
| "fdiv PosInf PosInf = NaN"
| "fdiv PosInf NegInf = NaN"
| "fdiv NegInf PosInf = NaN"
| "fdiv NegInf NegInf = NaN"

fun fsqrt :: "fval \<Rightarrow> fval" where
  "fsqrt (Fin x) = (if x < 0 then NaN else Fin (sqrt x))"
| "fsqrt PosInf = PosInf"
| "fsqrt NegInf = NaN"
| "fsqrt NaN = NaN"

definition fsquare :: "fval \<Rightarrow> fval" where
  "fsquare x = fmul x x"

fun feq :: "fval \<Rightarrow> fval \<Rightarrow> bool" where
  "feq NaN y = False"
| "feq x NaN = False"
| "feq x y = (x = y)"

subsection \<open>Cell 17: Welch's test through \<^verbatim>\<open>st.ttest_ind(a, b, equal_var=False)\<close>\<close>

text \<open>
  The exceptions met below: a missing file, an unbound name, and the arithmetic error that a
  division by zero is in plain Python. The call of cell 17 has no \<^verbatim>\<open>try\<close> around it and no
  check of the samples before it, so whatever the routine raises would leave the cell.
\<close>

datatype py_error = FileNotFoundError string | NameError string | ArithmeticError

text \<open>
  numpy's sum, mean and variance of a sample. The variance is taken with one degree of
  freedom removed (\<^verbatim>\<open>ddof=1\<close>): the sum of the squared deviations over \<open>max (n - 1) 0\<close>.
  A division of zero by zero there is not-a-number and a warning, not an exception.
\<close>

definition np_sum :: "fval list \<Rightarrow> fval" where
  "np_sum xs = foldl fadd (Fin 0) xs"

definition np_mean :: "real list \<Rightarrow> fval" where
  "np_mean xs = fdiv (np_sum (map Fin xs)) (Fin (real (length xs)))"

definition np_var :: "real list \<Rightarrow> fval" where
  "np_var xs =
     fdiv (np_sum (map (\<lambda>x. fsquare (fsub (Fin x) (np_mean xs))) xs))
          (Fin (max (real (length xs) - 1) 0))"

text \<open>
  The distribution function of Student's t, \<^verbatim>\<open>special.stdtr(df, x)\<close>. On numbers it is the
  parameter \<open>F\<close>; at the infinities it is 0 and 1; it is not-a-number elsewhere. The degrees
  of freedom that reach it below are always a number.
\<close>

fun stdtr_at :: "(real \<Rightarrow> real \<Rightarrow> real) \<Rightarrow> fval \<Rightarrow> fval \<Rightarrow> fval" where
  "stdtr_at F (Fin df) (Fin x) = Fin (F df x)"
| "stdtr_at F (Fin df) NegInf = Fin 0"
| "stdtr_at F (Fin df) PosInf = Fin 1"
| "stdtr_at F df x = NaN"

text \<open>
  The routine belongs to scipy, not to the notebook. Its two steps for unequal variances are
  scipy's \<^verbatim>\<open>_unequal_var_ttest_denom\<close> and \<^verbatim>\<open>_ttest_ind_from_stats\<close>: the
  Welch-Satterthwaite degrees of freedom (set to 1 where they come out not-a-number) with
  the denominator, and then the statistic with its two-sided p-value.
\<close>

definition unequal_var_ttest_denom :: "fval \<Rightarrow> fval \<Rightarrow> fval \<Rightarrow> fval \<Rightarrow> fval \<times> fval" where
  "unequal_var_ttest_denom v1 n1 v2 n2 =
     (let vn1 = fdiv v1 n1;
          vn2 = fdiv v2 n2;
          df = fdiv (fsquare (fadd vn1 vn2))
                 (fadd (fdiv (fsquare vn1) (fsub n1 (Fin 1)))
                       (fdiv (fsquare vn2) (fsub n2 (Fin 1))));
          df = (if df = NaN then Fin 1 else df);
          denom = fsqrt (fadd vn1 vn2)
      in (df, denom))"

definition ttest_ind_from_stats ::
  "(real \<Rightarrow> real \<Rightarrow> real) \<Rightarrow> fval \<Rightarrow> fval \<Rightarrow> fval \<Rightarrow> fval \<Rightarrow> fval \<times> fval" where
  "ttest_ind_from_stats F mean1 mean2 denom df =
     (let d = fsub mean1 mean2;
          t = fdiv d denom;
          pval = fmul (stdtr_at F df (fneg (fabs t))) (Fin 2)
      in (t, pval))"

text \<open>
  \<^verbatim>\<open>st.ttest_ind(a, b, equal_var=False)\<close> as the pair (t, p). An empty sample returns the
  pair of not-a-numbers at once. No branch raises.
\<close>

definition welch_t_test ::
  "(real \<Rightarrow> real \<Rightarrow> real) \<Rightarrow> real list \<Rightarrow> real list \<Rightarrow> py_error + (fval \<times> fval)" where
  "welch_t_test F a b =
     (if a = [] \<or> b = [] then Inr (NaN, NaN)
      else
        let n1 = Fin (real (length a));
            n2 = Fin (real (length b));
            v1 = np_var a;
            v2 = np_var b;
            m1 = np_mean a;
            m2 = np_mean b;
            (df, denom) = unequal_var_ttest_denom v1 n1 v2 n2
        in Inr (ttest_ind_from_stats F m1 m2 denom df))"

subsection \<open>The notebook's global names\<close>

text \<open>
  The cells share the kernel's global names. A name is \<open>None\<close> until a cell binds it.
  The three type parameters are the types of the three tables: what \<^verbatim>\<open>pd.read_csv\<close> returns
  in the loader, lists of rows in the later cells.
\<close>

record ('t, 'n, 'r) notebook =
  taxi_df :: "'t option"
  neighborhood_df :: "'n option"
  rides_df :: "'r option"
  stdout :: "string list"
  sorted_taxi_df :: "'t option"
  top_neighborhoods :: "'n option"
  rides_saturdays :: "'r option"
  good_weather_durations :: "real list option"
  bad_weather_durations :: "real list option"
  t_stat_p_value :: "(fval \<times> fval) option"

definition fresh_kernel :: "('t, 'n, 'r) notebook" where
  "fresh_kernel =
     \<lparr>taxi_df = None, neighborhood_df = None, rides_df = None, stdout = [],
      sorted_taxi_df = None, top_neighborhoods = None, rides_saturdays = None,
      good_weather_durations = None, bad_weather_durations = None, t_stat_p_value = None\<rparr>"

subsection \<open>Cell 4 and cell 5: loading\<close>

text \<open>The files on disk: a path has a table (what \<^verbatim>\<open>pd.read_csv\<close> makes of the file) or is absent.\<close>

definition read_csv :: "(string \<rightharpoonup> 'df) \<Rightarrow> string \<Rightarrow> py_error + 'df" where
  "read_csv fs path = (case fs path of None \<Rightarrow> Inl (FileNotFoundError path) | Some df \<Rightarrow> Inr df)"

text \<open>
  The three assignments of a \<^verbatim>\<open>try\<close> body, reading from directory prefix \<open>dir\<close>. The
  result is the exception raised, if any, and the names as bound when it was raised.
\<close>

definition read_three ::
  "(string \<rightharpoonup> 'df) \<Rightarrow> string \<Rightarrow> ('df, 'df, 'df) notebook
     \<Rightarrow> py_error option \<times> ('df, 'df, 'df) notebook" where
  "read_three fs dir s =
     (case read_csv fs (dir @ ''moved_project_sql_result_01.csv'') of
        Inl e \<Rightarrow> (Some e, s)
      | Inr d1 \<Rightarrow>
          let s1 = s\<lparr>taxi_df := Some d1\<rparr> in
          (case read_csv fs (dir @ ''moved_project_sql_result_04.csv'') of
             Inl e \<Rightarrow> (Some e, s1)
           | Inr d4 \<Rightarrow>
               let s2 = s1\<lparr>neighborhood_df := Some d4\<rparr> in
               (case read_csv fs (dir @ ''moved_project_sql_result_07.csv'') of
                  Inl e \<Rightarrow> (Some e, s2)
                | Inr d7 \<Rightarrow> (None, s2\<lparr>rides_df := Some d7\<rparr>))))"

definition not_found_message :: string where
  "not_found_message =
     ''Files not found. Please ensure the file paths are correct or upload the files.''"

text \<open>Cell 4: the nested \<^verbatim>\<open>try\<close>/\<^verbatim>\<open>except FileNotFoundError\<close>.\<close>

definition cell_4 ::
  "(string \<rightharpoonup> 'df) \<Rightarrow> ('df, 'df, 'df) notebook \<Rightarrow> py_error option \<times> ('df, 'df, 'df) notebook" where
  "cell_4 fs s =
     (case read_three fs [] s of
        (Some (FileNotFoundError p), s1) \<Rightarrow>
          (case read_three fs ''/mnt/data/'' s1 of
             (Some (FileNotFoundError q), s2) \<Rightarrow>
               (None, s2\<lparr>stdout := stdout s2 @ [not_found_message]\<rparr>)
           | r \<Rightarrow> r)
      | r \<Rightarrow> r)"

text \<open>Cell 5, its first three statements: the primary paths are read again, outside any \<^verbatim>\<open>try\<close>.\<close>

definition cell_5 ::
  "(string \<rightharpoonup> 'df) \<Rightarrow> ('df, 'df, 'df) notebook \<Rightarrow> py_error option \<times> ('df, 'df, 'df) notebook" where
  "cell_5 fs s = read_three fs [] s"

text \<open>Running the cells in order stops at the first cell that raises.\<close>

definition run_loader ::
  "(string \<rightharpoonup> 'df) \<Rightarrow> ('df, 'df, 'df) notebook \<Rightarrow> py_error option \<times> ('df, 'df, 'df) notebook" where
  "run_loader fs s =
     (case cell_4 fs s of
        (None, s1) \<Rightarrow> cell_5 fs s1
      | r \<Rightarrow> r)"

text \<open>A disk that holds the three files under \<^verbatim>\<open>/mnt/data/\<close> only.\<close>

definition fallback_only_disk :: "string \<rightharpoonup> nat" where
  "fallback_only_disk =
     [''/mnt/data/moved_project_sql_result_01.csv'' \<mapsto> 1,
      ''/mnt/data/moved_project_sql_result_04.csv'' \<mapsto> 4,
      ''/mnt/data/moved_project_sql_result_07.csv'' \<mapsto> 7]"

subsection \<open>Cells 11, 13 and 17 as steps on the global names\<close>

type_synonym tables = "(operator_row list, neighborhood_row list, ride_row list) notebook"

definition cell_11 :: "tables \<Rightarrow> py_error + tables" where
  "cell_11 s =
     (case taxi_df s of
        None \<Rightarrow> Inl (NameError ''taxi_df'')
      | Some df \<Rightarrow> Inr (s\<lparr>sorted_taxi_df := Some (rank_by_count df)\<rparr>))"

definition cell_13 :: "tables \<Rightarrow> py_error + tables" where
  "cell_13 s =
     (case neighborhood_df s of
        None \<Rightarrow> Inl (NameError ''neighborhood_df'')
      | Some df \<Rightarrow> Inr (s\<lparr>top_neighborhoods := Some (top_n df 10)\<rparr>))"

text \<open>
  \<^verbatim>\<open>rides_df['start_ts'] = pd.to_datetime(rides_df['start_ts'])\<close> writes a column back into
  the table, row by row. On a column that holds timestamps already, as it does since
  cell 5, \<^verbatim>\<open>pd.to_datetime\<close> returns the values it was given.
\<close>

definition to_datetime_column :: "timestamp list \<Rightarrow> timestamp list" where
  "to_datetime_column ts = ts"

definition assign_start_ts :: "ride_row list \<Rightarrow> timestamp list \<Rightarrow> ride_row list" where
  "assign_start_ts df ts = map2 (\<lambda>r t. r\<lparr>start_ts := t\<rparr>) df ts"

definition cell_17 :: "(real \<Rightarrow> real \<Rightarrow> real) \<Rightarrow> tables \<Rightarrow> py_error + tables" where
  "cell_17 F s =
     (case rides_df s of
        None \<Rightarrow> Inl (NameError ''rides_df'')
      | Some df \<Rightarrow>
          let df' = assign_start_ts df (to_datetime_column (column start_ts df));
              s1 = s\<lparr>rides_df := Some df'\<rparr>;
              sat = rides_saturdays_of df';
              s2 = s1\<lparr>rides_saturdays := Some sat\<rparr>;
              good = fst (partition_by_weather sat);
              bad = snd (partition_by_weather sat);
              s3 = s2\<lparr>good_weather_durations := Some good, bad_weather_durations := Some bad\<rparr>
          in (case welch_t_test F good bad of
                Inl e \<Rightarrow> Inl e
              | Inr tp \<Rightarrow> Inr (s3\<lparr>t_stat_p_value := Some tp\<rparr>)))"

subsection \<open>Small tables for concrete runs\<close>

text \<open>Rows with the figures the notebook reports, and two rides of one weekend.\<close>

definition two_operators :: "operator_row list" where
  "two_operators =
     [\<lparr>company_name = ''Taxi Affiliation Services'', trips_amount = 11422\<rparr>,
      \<lparr>company_name = ''Flash Cab'', trips_amount = 19558\<rparr>]"

definition three_neighborhoods :: "neighborhood_row list" where
  "three_neighborhoods =
     [\<lparr>dropoff_location_name = ''River North'', average_trips = 952367 / 100\<rparr>,
      \<lparr>dropoff_location_name = ''Streeterville'', average_trips = 666467 / 100\<rparr>,
      \<lparr>dropoff_location_name = ''Loop'', average_trips = 1072747 / 100\<rparr>]"

definition two_rides :: "ride_row list" where
  "two_rides =
     [\<lparr>start_ts = to_datetime (DateTime 2017 11 4 10 0 0), weather_conditions = ''Good'',
        duration_seconds = 2410\<rparr>,
      \<lparr>start_ts = to_datetime (DateTime 2017 11 5 10 0 0), weather_conditions = ''Bad'',
        duration_seconds = 1920\<rparr>]"

definition small_notebook :: tables where
  "small_notebook =
     fresh_kernel\<lparr>taxi_df := Some two_operators, neighborhood_df := Some three_neighborhoods,
                  rides_df := Some two_rides\<rparr>"

section \<open>Properties\<close>

subsection \<open>Row selection by a boolean column\<close>

lemma boolean_index_map: "boolean_index df (map P df) = filter P df"
  by (induction df) (simp_all add: boolean_index_def)

lemma mask_and_map: "mask_and (map P xs) (map Q xs) = map (\<lambda>x. P x \<and> Q x) xs"
  by (induction xs) (simp_all add: mask_and_def)

lemma select_window_filter:
  "select_window rides d s e =
     filter (\<lambda>r. dayofweek (start_ts r) = d \<and> to_datetime s \<le> start_ts r \<and>
                start_ts r \<le> to_datetime e) rides"
  unfolding select_window_def column_def
  by (simp add: o_def mask_and_map boolean_index_map conj_assoc)

lemma partition_by_weather_filter:
  "partition_by_weather rides =
     (map duration_seconds (filter (\<lambda>r. weather_conditions r = ''Good'') rides),
      map duration_seconds (filter (\<lambda>r. weather_conditions r = ''Bad'') rides))"
  unfolding partition_by_weather_def column_def
  by (simp add: o_def boolean_index_map)

subsection \<open>A timestamp against midnight of a date\<close>

lemma div_mod_bounds:
  fixes N t :: int
  assumes "0 < N"
  shows "(t div N) * N \<le> t" and "t < (t div N) * N + N"
proof -
  have "(t div N) * N + t mod N = t" by simp
  moreover have "0 \<le> t mod N" and "t mod N < N" using assms by simp_all
  ultimately show "(t div N) * N \<le> t" and "t < (t div N) * N + N" by linarith+
qed

lemma midnight_le_iff:
  fixes N D t :: int
  assumes "0 < N"
  shows "(D * N \<le> t) = (D \<le> t div N)"
proof
  assume "D * N \<le> t"
  then have "D * N div N \<le> t div N" using assms by (rule zdiv_mono1)
  then show "D \<le> t div N" using assms by simp
next
  assume "D \<le> t div N"
  then have "D * N \<le> (t div N) * N" using assms by (simp add: mult_right_mono)
  then show "D * N \<le> t" using div_mod_bounds(1) [OF assms, of t] by linarith
qed

lemma le_midnight_iff:
  fixes N D t :: int
  assumes "0 < N"
  shows "(t \<le> D * N) = (t div N < D \<or> (t div N = D \<and> t mod N = 0))"
proof (cases "t div N < D")
  case True
  then have "t div N + 1 \<le> D" by simp
  then have "(t div N + 1) * N \<le> D * N" using assms by (rule_tac mult_right_mono) simp_all
  then have "(t div N) * N + N \<le> D * N" by (simp add: algebra_simps)
  then have "t \<le> D * N" using div_mod_bounds(2) [OF assms, of t] by linarith
  then show ?thesis using True by simp
next
  case False
  then have ge: "D \<le> t div N" by simp
  show ?thesis
  proof (cases "t div N = D")
    case True
    have "D * N + t mod N = t" using True by auto
    then have "(t \<le> D * N) = (t mod N \<le> 0)" by linarith
    moreover have "0 \<le> t mod N" using assms by simp
    ultimately show ?thesis using True by auto
  next
    case neq: False
    with ge have "D + 1 \<le> t div N" by simp
    then have "(D + 1) * N \<le> (t div N) * N" using assms by (rule_tac mult_right_mono) simp_all
    then have "D * N + N \<le> (t div N) * N" by (simp add: algebra_simps)
    then have "\<not> t \<le> D * N" using div_mod_bounds(1) [OF assms, of t] assms by linarith
    then show ?thesis using neq False by simp
  qed
qed

lemma ns_per_day_pos: "0 < ns_per_day"
  by (simp add: ns_per_day_def ns_per_second_def)

lemma from_midnight_iff:
  "(to_datetime (Date y m d) \<le> t) = (days_from_civil y m d \<le> date_of t)"
  by (simp add: date_of_def midnight_le_iff [OF ns_per_day_pos])

lemma until_midnight_iff:
  "(t \<le> to_datetime (Date y m d)) =
     (date_of t < days_from_civil y m d \<or>
      (date_of t = days_from_civil y m d \<and> time_of_day t = 0))"
  by (simp add: date_of_def time_of_day_def le_midnight_iff [OF ns_per_day_pos])

text \<open>The definitions a concrete window is evaluated with.\<close>

lemmas window_eval = select_window_def column_def mask_and_def boolean_index_def dayofweek_def
  isoweekday_def date_of_def time_of_day_def days_from_civil_def ns_per_day_def
  ns_per_second_def Let_def

subsection \<open>The window of cell 17\<close>

lemma date_of_midnight: "date_of (to_datetime (Date y m d)) = days_from_civil y m d"
  using ns_per_day_pos by (simp add: date_of_def)

text \<open>
  When the end date does not itself fall on the requested weekday, comparing timestamps with
  the two midnights selects by date, both ends included.
\<close>

lemma select_window_inclusive:
  assumes "dayofweek (to_datetime (Date y2 m2 d2)) \<noteq> dow"
  shows "select_window rides dow (Date y1 m1 d1) (Date y2 m2 d2) =
     filter (\<lambda>r. isoweekday (start_ts r) = dow + 1 \<and>
                days_from_civil y1 m1 d1 \<le> date_of (start_ts r) \<and>
                date_of (start_ts r) \<le> days_from_civil y2 m2 d2) rides"
proof -
  have other_day: "date_of t \<noteq> days_from_civil y2 m2 d2" if "dayofweek t = dow" for t
  proof
    assume "date_of t = days_from_civil y2 m2 d2"
    then have "dayofweek t = dayofweek (to_datetime (Date y2 m2 d2))"
      by (simp only: dayofweek_def date_of_midnight)
    with that assms show False by simp
  qed
  have "(dayofweek t = dow \<and> to_datetime (Date y1 m1 d1) \<le> t \<and>
         t \<le> to_datetime (Date y2 m2 d2)) =
        (isoweekday t = dow + 1 \<and> days_from_civil y1 m1 d1 \<le> date_of t \<and>
         date_of t \<le> days_from_civil y2 m2 d2)" for t
    unfolding from_midnight_iff until_midnight_iff isoweekday_def
    using other_day [of t] by auto
  then show ?thesis
    by (simp only: select_window_filter)
qed

text \<open>
  Claim C1, at the arguments the notebook passes: Saturday, which \<^verbatim>\<open>dt.dayofweek\<close> numbers 5
  and ISO 8601 numbers 6, from 2017-11-01 to 2017-11-30. For every table of rides,
  \<open>select_window\<close> returns exactly the rides that start on a Saturday and whose date lies
  between the two dates, both included, in the order of the table: the rides that meet both
  conditions and no others.
\<close>

theorem rides_saturdays_window:
  "select_window rides 5 (Date 2017 11 1) (Date 2017 11 30) =
     filter (\<lambda>r. isoweekday (start_ts r) = 6 \<and>
                days_from_civil 2017 11 1 \<le> date_of (start_ts r) \<and>
                date_of (start_ts r) \<le> days_from_civil 2017 11 30) rides \<and>
   subseq (select_window rides 5 (Date 2017 11 1) (Date 2017 11 30)) rides"
proof -
  have thursday: "dayofweek (to_datetime (Date 2017 11 30)) \<noteq> 5"
    by (simp add: window_eval)
  show ?thesis
    using select_window_inclusive [OF thursday, of rides 2017 11 1]
    by (simp add: select_window_filter)
qed

text \<open>
  Claim C8. Selecting the window from the result of selecting the same window returns that
  result unchanged.
\<close>

theorem select_window_idempotent:
  "select_window (select_window rides d s e) d s e = select_window rides d s e"
  by (simp add: select_window_filter)

subsection \<open>The two weather samples\<close>

text \<open>
  Claim C6. \<open>partition_by_weather\<close> returns two sequences of durations: those of the
  rides whose weather is \<^verbatim>\<open>'Good'\<close> and those of the rides whose weather is \<^verbatim>\<open>'Bad'\<close>, each in
  the order of the rides. Rides with any other weather give nothing to either: alone they
  yield two empty samples, and removing them from the input changes neither sample.
\<close>

theorem partition_by_weather_split:
  "partition_by_weather rides =
     (map duration_seconds (filter (\<lambda>r. weather_conditions r = ''Good'') rides),
      map duration_seconds (filter (\<lambda>r. weather_conditions r = ''Bad'') rides)) \<and>
   partition_by_weather
     (filter (\<lambda>r. weather_conditions r \<noteq> ''Good'' \<and> weather_conditions r \<noteq> ''Bad'') rides) =
     ([], []) \<and>
   partition_by_weather
     (filter (\<lambda>r. weather_conditions r = ''Good'' \<or> weather_conditions r = ''Bad'') rides) =
     partition_by_weather rides"
proof -
  have "filter (\<lambda>r. weather_conditions r = w)
          (filter (\<lambda>r. weather_conditions r \<noteq> ''Good'' \<and> weather_conditions r \<noteq> ''Bad'') rides) = []"
    if "w = ''Good'' \<or> w = ''Bad''" for w
    using that by (induction rides) auto
  moreover have "filter (\<lambda>r. weather_conditions r = w)
          (filter (\<lambda>r. weather_conditions r = ''Good'' \<or> weather_conditions r = ''Bad'') rides) =
          filter (\<lambda>r. weather_conditions r = w) rides"
    if "w = ''Good'' \<or> w = ''Bad''" for w
    using that by (induction rides) auto
  ultimately show ?thesis
    by (simp add: partition_by_weather_filter)
qed

text \<open>
  Claim C10. The two samples are disjoint: a single ride gives its duration to at most one
  of them. The lengths of the two samples and the number of rides of neither weather add up
  to the number of rides, so the two lengths together never exceed it.
\<close>

theorem partition_by_weather_disjoint:
  "length (fst (partition_by_weather rides)) + length (snd (partition_by_weather rides)) +
     length (filter (\<lambda>r. weather_conditions r \<noteq> ''Good'' \<and> weather_conditions r \<noteq> ''Bad'') rides) =
     length rides \<and>
   length (fst (partition_by_weather rides)) + length (snd (partition_by_weather rides))
     \<le> length rides \<and>
   length (fst (partition_by_weather [r])) + length (snd (partition_by_weather [r])) \<le> 1"
proof -
  have "length (filter (\<lambda>r. weather_conditions r = ''Good'') rides) +
        length (filter (\<lambda>r. weather_conditions r = ''Bad'') rides) +
        length (filter (\<lambda>r. weather_conditions r \<noteq> ''Good'' \<and> weather_conditions r \<noteq> ''Bad'') rides) =
        length rides"
    by (induction rides) auto
  then show ?thesis
    by (simp add: partition_by_weather_filter)
qed

subsection \<open>Ranking\<close>

text \<open>
  Claim C4. The output of \<open>rank_by_count\<close> is a permutation of its input, with the same
  multiset of rows and the same length, and its trip counts never increase from one row to a
  later one.
\<close>

theorem rank_by_count_sorted_perm:
  "mset (rank_by_count operators) = mset operators \<and>
   length (rank_by_count operators) = length operators \<and>
   sorted_wrt (\<lambda>a b. trips_amount b \<le> trips_amount a) (rank_by_count operators)"
proof -
  have "sorted (map trips_amount (sort_key trips_amount (rev operators)))"
    by (rule sorted_sort_key)
  then have "sorted_wrt (\<lambda>a b. trips_amount a \<le> trips_amount b)
               (sort_key trips_amount (rev operators))"
    by (simp add: sorted_wrt_map)
  then have "sorted_wrt (\<lambda>a b. trips_amount b \<le> trips_amount a) (rank_by_count operators)"
    by (simp add: rank_by_count_def sort_values_desc_def sorted_wrt_rev)
  then show ?thesis
    by (simp add: rank_by_count_def sort_values_desc_def)
qed

text \<open>
  Claim C5, for every number of rows \<open>n \<ge> 0\<close>; the notebook passes 10. \<open>top_n\<close> returns at
  most \<open>n\<close> rows and at most as many as its input has; when the input has fewer than \<open>n\<close>
  rows it returns all of them, in descending order; and for \<open>n \<le> 0\<close>, which is then
  \<open>n = 0\<close>, it returns the empty sequence.
\<close>

theorem top_n_bounds:
  assumes "0 \<le> n"
  shows "int (length (top_n neighborhoods n)) \<le> n \<and>
         length (top_n neighborhoods n) \<le> length neighborhoods \<and>
         (int (length neighborhoods) < n \<longrightarrow>
            top_n neighborhoods n = sort_values_desc average_trips neighborhoods \<and>
            mset (top_n neighborhoods n) = mset neighborhoods) \<and>
         (n \<le> 0 \<longrightarrow> top_n neighborhoods n = [])"
  using assms by (auto simp: top_n_def head_def sort_values_desc_def)

text \<open>
  With \<open>n = 10\<close>: the three neighbourhoods all come back, Loop first; twelve rows come
  back as ten. With \<open>n = 0\<close> nothing comes back.
\<close>

theorem top_n_bounds_witness:
  "(0::int) \<le> 10 \<and> int (length three_neighborhoods) < 10 \<and>
   top_n three_neighborhoods 10 =
     [\<lparr>dropoff_location_name = ''Loop'', average_trips = 1072747 / 100\<rparr>,
      \<lparr>dropoff_location_name = ''River North'', average_trips = 952367 / 100\<rparr>,
      \<lparr>dropoff_location_name = ''Streeterville'', average_trips = 666467 / 100\<rparr>] \<and>
   length (top_n (replicate 12 (hd three_neighborhoods)) 10) = 10 \<and>
   (0::int) \<le> 0 \<and> top_n three_neighborhoods 0 = []"
proof -
  have ten: "(0::int) \<le> 10" and zero: "(0::int) \<le> 0" by simp_all
  show ?thesis
    using top_n_bounds [OF ten, of three_neighborhoods]
      top_n_bounds [OF ten, of "replicate 12 (hd three_neighborhoods)"]
      top_n_bounds [OF zero, of three_neighborhoods]
    by (simp add: three_neighborhoods_def top_n_def head_def sort_values_desc_def)
qed

subsection \<open>Loading\<close>

lemmas loader_eval = run_loader_def cell_4_def cell_5_def read_three_def read_csv_def
  fallback_only_disk_def fresh_kernel_def Let_def

text \<open>
  Claim C2, on the disk that has the three files under \<^verbatim>\<open>/mnt/data/\<close> only. Cell 4 finds
  the primary path missing, reads all three tables from the secondary path and prints
  nothing. Cell 5 then reads the primary paths again, and its \<^verbatim>\<open>FileNotFoundError\<close> leaves
  the notebook: the fallback of cell 4 does not keep the failure from propagating.
\<close>

theorem loader_fallback_defeated:
  "cell_4 fallback_only_disk fresh_kernel =
     (None, fresh_kernel\<lparr>taxi_df := Some 1, neighborhood_df := Some 4, rides_df := Some 7\<rparr>) \<and>
   run_loader fallback_only_disk fresh_kernel =
     (Some (FileNotFoundError ''moved_project_sql_result_01.csv''),
      fresh_kernel\<lparr>taxi_df := Some 1, neighborhood_df := Some 4, rides_df := Some 7\<rparr>)"
  by (simp add: loader_eval)

text \<open>
  With no file at either place cell 4 prints its message and ends normally; the run goes on
  into cell 5, which raises. With the first file alone at the primary path, cell 4 ends
  with \<^verbatim>\<open>taxi_df\<close> bound and the other two names unbound.
\<close>

lemma loader_message_then_raise:
  "cell_4 (Map.empty :: string \<rightharpoonup> nat) fresh_kernel =
     (None, fresh_kernel\<lparr>stdout := [not_found_message]\<rparr>) \<and>
   run_loader (Map.empty :: string \<rightharpoonup> nat) fresh_kernel =
     (Some (FileNotFoundError ''moved_project_sql_result_01.csv''),
      fresh_kernel\<lparr>stdout := [not_found_message]\<rparr>)"
  by (simp add: loader_eval)

lemma loader_partial_load:
  "cell_4 [''moved_project_sql_result_01.csv'' \<mapsto> (1::nat)] fresh_kernel =
     (None, fresh_kernel\<lparr>taxi_df := Some 1, stdout := [not_found_message]\<rparr>)"
  by (simp add: loader_eval)

subsection \<open>Special values through the arithmetic\<close>

lemmas welch_eval = welch_t_test_def unequal_var_ttest_denom_def ttest_ind_from_stats_def
  np_var_def np_mean_def np_sum_def fsub_def fsquare_def Let_def

lemma fadd_commute: "fadd x y = fadd y x"
  by (cases x; cases y) simp_all

lemma fadd_NaN_right: "fadd x NaN = NaN"
  by (cases x) simp_all

lemma fdiv_NaN_right: "fdiv x NaN = NaN"
  by (cases x) simp_all

lemma stdtr_at_NaN: "stdtr_at F df NaN = NaN"
  by (cases df) simp_all

lemma fneg_fneg: "fneg (fneg x) = x"
  by (cases x) simp_all

lemma fneg_fadd: "fneg (fadd x y) = fadd (fneg x) (fneg y)"
  by (cases x; cases y) simp_all

lemma fsub_swap: "fsub y x = fneg (fsub x y)"
  by (simp add: fsub_def fneg_fadd fneg_fneg fadd_commute)

lemma fdiv_fneg_left: "fdiv (fneg x) y = fneg (fdiv x y)"
  by (cases x; cases y) simp_all

lemma fabs_fneg: "fabs (fneg x) = fabs x"
  by (cases x) simp_all

lemma feq_self: "feq x x = (x \<noteq> NaN)"
  by (cases x) simp_all

lemma unequal_var_ttest_denom_swap:
  "unequal_var_ttest_denom v2 n2 v1 n1 = unequal_var_ttest_denom v1 n1 v2 n2"
  by (simp add: unequal_var_ttest_denom_def Let_def fadd_commute)

lemma ttest_ind_from_stats_swap:
  "ttest_ind_from_stats F m2 m1 denom df =
     (fneg (fst (ttest_ind_from_stats F m1 m2 denom df)),
      snd (ttest_ind_from_stats F m1 m2 denom df))"
  by (simp add: ttest_ind_from_stats_def Let_def fsub_swap [of m1 m2] fdiv_fneg_left fabs_fneg
        fneg_fneg)

lemma welch_t_test_Inr:
  "\<exists>t p. welch_t_test F a b = Inr (t, p)"
  by (simp add: welch_t_test_def Let_def split: prod.splits)

lemma welch_t_test_swap_struct:
  assumes "welch_t_test F a b = Inr (t, p)"
  shows "welch_t_test F b a = Inr (fneg t, p)"
proof (cases "a = [] \<or> b = []")
  case True
  then show ?thesis using assms by (auto simp: welch_t_test_def)
next
  case False
  obtain df denom where ud:
    "unequal_var_ttest_denom (np_var a) (Fin (real (length a))) (np_var b) (Fin (real (length b)))
       = (df, denom)"
    by (cases "unequal_var_ttest_denom (np_var a) (Fin (real (length a))) (np_var b)
                 (Fin (real (length b)))") 
  from assms False ud have tp: "ttest_ind_from_stats F (np_mean a) (np_mean b) denom df = (t, p)"
    by (simp add: welch_t_test_def Let_def)
  from False ud have "welch_t_test F b a =
      Inr (ttest_ind_from_stats F (np_mean b) (np_mean a) denom df)"
    by (simp add: welch_t_test_def Let_def unequal_var_ttest_denom_swap [of "np_var a"])
  then show ?thesis
    by (simp add: ttest_ind_from_stats_swap [of F "np_mean b" "np_mean a"] tp)
qed

lemma np_sum_Fin_aux:
  "foldl fadd (Fin c) (map (\<lambda>x. Fin (g x)) xs) = Fin (c + sum_list (map g xs))"
  by (induction xs arbitrary: c) (simp_all add: add.assoc)

lemma np_sum_Fin: "np_sum (map (\<lambda>x. Fin (g x)) xs) = Fin (sum_list (map g xs))"
  using np_sum_Fin_aux [of 0 g xs] by (simp add: np_sum_def)

lemma np_mean_Fin:
  assumes "xs \<noteq> []"
  shows "np_mean xs = Fin (sum_list xs / real (length xs))"
  using assms np_sum_Fin [of "\<lambda>x. x" xs] by (simp add: np_mean_def)

lemma np_var_Fin:
  assumes "2 \<le> length xs"
  shows "\<exists>v. np_var xs = Fin v \<and> 0 \<le> v"
proof -
  from assms have ne: "xs \<noteq> []" by auto
  define m where "m = sum_list xs / real (length xs)"
  have eq: "map (\<lambda>x. fsquare (fsub (Fin x) (np_mean xs))) xs = map (\<lambda>x. Fin ((x - m) * (x - m))) xs"
    by (simp add: np_mean_Fin [OF ne] m_def fsquare_def fsub_def)
  have "np_sum (map (\<lambda>x. fsquare (fsub (Fin x) (np_mean xs))) xs) =
             Fin (sum_list (map (\<lambda>x. (x - m) * (x - m)) xs))"
    unfolding eq by (rule np_sum_Fin)
  moreover have "0 \<le> sum_list (map (\<lambda>x. (x - m) * (x - m)) xs)"
    by (rule sum_list_nonneg) auto
  moreover have "0 < real (length xs) - 1" using assms by simp
  ultimately show ?thesis
    by (simp add: np_var_def)
qed

lemma np_var_single: "np_var [x] = NaN"
  by (simp add: np_var_def np_mean_def np_sum_def fsub_def fsquare_def)

lemma welch_t_test_number:
  assumes "2 \<le> length a" and "2 \<le> length b" and "welch_t_test F a b = Inr (t, p)"
    and "t \<noteq> NaN"
  shows "p \<noteq> NaN"
proof -
  from assms have ne: "a \<noteq> []" "b \<noteq> []" by auto
  obtain v1 where v1: "np_var a = Fin v1" "0 \<le> v1" using np_var_Fin [OF assms(1)] by blast
  obtain v2 where v2: "np_var b = Fin v2" "0 \<le> v2" using np_var_Fin [OF assms(2)] by blast
  define n1 where "n1 = real (length a)"
  define n2 where "n2 = real (length b)"
  have n: "2 \<le> n1" "2 \<le> n2" using assms by (simp_all add: n1_def n2_def)
  define D where "D = (v1 / n1) * (v1 / n1) / (n1 - 1) + (v2 / n2) * (v2 / n2) / (n2 - 1)"
  define N where "N = (v1 / n1 + v2 / n2) * (v1 / n1 + v2 / n2)"
  have t1: "0 \<le> (v1 / n1) * (v1 / n1) / (n1 - 1)" and t2: "0 \<le> (v2 / n2) * (v2 / n2) / (n2 - 1)"
    using n by simp_all
  have D0: "N = 0" if "D = 0"
  proof -
    from that t1 t2 have "(v1 / n1) * (v1 / n1) / (n1 - 1) = 0" "(v2 / n2) * (v2 / n2) / (n2 - 1) = 0"
      unfolding D_def by linarith+
    then have "v1 / n1 = 0" "v2 / n2 = 0" using n by auto
    then show ?thesis unfolding N_def by (simp only: add_0_left mult_zero_left)
  qed
  have "\<exists>dfr. fst (unequal_var_ttest_denom (Fin v1) (Fin n1) (Fin v2) (Fin n2)) = Fin dfr"
    using n D0 by (auto simp: unequal_var_ttest_denom_def Let_def fsquare_def fsub_def D_def N_def)
  moreover have "0 \<le> v1 / n1 + v2 / n2"
    using n v1 v2 by (intro add_nonneg_nonneg divide_nonneg_nonneg) simp_all
  then have "\<exists>dn. snd (unequal_var_ttest_denom (Fin v1) (Fin n1) (Fin v2) (Fin n2)) = Fin dn"
    using n by (auto simp: unequal_var_ttest_denom_def Let_def)
  ultimately obtain dfr dn where
    ud: "unequal_var_ttest_denom (Fin v1) (Fin n1) (Fin v2) (Fin n2) = (Fin dfr, Fin dn)"
    by (metis prod.collapse)
  from assms(3) ne have tp: "ttest_ind_from_stats F (np_mean a) (np_mean b) (Fin dn) (Fin dfr) = (t, p)"
    by (simp add: welch_t_test_def Let_def v1 v2 ud [unfolded n1_def n2_def])
  have "fneg (fabs t) \<noteq> NaN" using assms(4) by (cases t) simp_all
  moreover have "fneg (fabs t) \<noteq> PosInf" by (cases t) simp_all
  ultimately have "\<exists>q. stdtr_at F (Fin dfr) (fneg (fabs t)) = Fin q"
    by (cases "fneg (fabs t)") simp_all
  moreover have "fst (ttest_ind_from_stats F (np_mean a) (np_mean b) (Fin dn) (Fin dfr)) = t"
    "snd (ttest_ind_from_stats F (np_mean a) (np_mean b) (Fin dn) (Fin dfr)) = p"
    using tp by simp_all
  ultimately show ?thesis
    by (auto simp: ttest_ind_from_stats_def Let_def)
qed

text \<open>A statistic that is not-a-number comes with a p-value that is not-a-number.\<close>

lemma welch_t_test_nan_p:
  assumes "welch_t_test F a b = Inr (NaN, p)"
  shows "p = NaN"
proof (cases "a = [] \<or> b = []")
  case True
  then show ?thesis using assms by (auto simp: welch_t_test_def)
next
  case False
  then show ?thesis using assms
    by (auto simp: welch_t_test_def ttest_ind_from_stats_def Let_def stdtr_at_NaN
        split: prod.splits)
qed

subsection \<open>Welch's test\<close>

text \<open>
  Claim C7, as the code has it. When either sample has fewer than two observations the call
  raises nothing: it returns not-a-number for the statistic and for the p-value.
\<close>

theorem welch_t_test_small:
  assumes "length a < 2 \<or> length b < 2"
  shows "welch_t_test F a b = Inr (NaN, NaN)"
proof (cases "a = [] \<or> b = []")
  case True
  then show ?thesis by (auto simp: welch_t_test_def)
next
  case False
  with assms have "(\<exists>x. a = [x]) \<or> (\<exists>y. b = [y])"
    by (cases a; cases b) (auto simp: length_Suc_conv Suc_length_conv less_Suc_eq intro: list.exhaust)
  then have "np_var a = NaN \<or> np_var b = NaN"
    by (auto simp: np_var_single)
  then have "unequal_var_ttest_denom (np_var a) (Fin (real (length a))) (np_var b)
               (Fin (real (length b))) = (Fin 1, NaN)"
    by (auto simp: unequal_var_ttest_denom_def Let_def fsquare_def fadd_NaN_right fdiv_NaN_right)
  then show ?thesis using False
    by (simp add: welch_t_test_def Let_def ttest_ind_from_stats_def fdiv_NaN_right stdtr_at_NaN)
qed

text \<open>A sample of one observation against a sample of two.\<close>

theorem welch_t_test_small_witness:
  "\<forall>F. (length [1 :: real] < 2 \<or> length [2, 3 :: real] < 2) \<and>
       welch_t_test F [1] [2, 3] = Inr (NaN, NaN)"
proof
  fix F :: "real \<Rightarrow> real \<Rightarrow> real"
  have h: "length [1 :: real] < 2 \<or> length [2, 3 :: real] < 2" by simp
  show "(length [1 :: real] < 2 \<or> length [2, 3 :: real] < 2) \<and>
       welch_t_test F [1] [2, 3] = Inr (NaN, NaN)"
    using welch_t_test_small [OF h, of F] by simp
qed

text \<open>
  Where C7 as written fails: the sample \<open>[1]\<close> has fewer than two observations, and the call
  returns a pair of not-a-numbers; it does not end in an \<open>ArithmeticError\<close>.
\<close>

theorem welch_t_test_small_counterexample:
  "length [1 :: real] < 2 \<and>
   welch_t_test (\<lambda>df x. 0) [1] [2, 3] = Inr (NaN, NaN) \<and>
   welch_t_test (\<lambda>df x. 0) [1] [2, 3] \<noteq> Inl ArithmeticError"
  by (simp add: welch_eval)

text \<open>
  Claim C3, as the code has it. For samples of at least two observations each, both calls
  return; the statistic of the swapped call is the negation of the statistic and the p-value
  is the same value. So, unless the statistic is not-a-number, \<^verbatim>\<open>t(A,B) == -t(B,A)\<close> and
  \<^verbatim>\<open>p(A,B) == p(B,A)\<close> hold as comparisons of floats.
\<close>

theorem welch_t_test_swap:
  assumes "2 \<le> length a" and "2 \<le> length b"
  shows "\<exists>t p t' p'. welch_t_test F a b = Inr (t, p) \<and> welch_t_test F b a = Inr (t', p') \<and>
           t' = fneg t \<and> p' = p \<and> (t \<noteq> NaN \<longrightarrow> feq t (fneg t') \<and> feq p p')"
proof -
  obtain t p where tp: "welch_t_test F a b = Inr (t, p)"
    using welch_t_test_Inr by blast
  have sw: "welch_t_test F b a = Inr (fneg t, p)"
    by (rule welch_t_test_swap_struct [OF tp])
  have "feq t (fneg (fneg t)) \<and> feq p p" if "t \<noteq> NaN"
    using that welch_t_test_number [OF assms tp that] by (simp add: fneg_fneg feq_self)
  with tp sw show ?thesis by blast
qed

text \<open>The samples \<open>[0, 2]\<close> and \<open>[5, 5]\<close>: the statistic is -4 one way and 4 the other.\<close>

theorem welch_t_test_swap_witness:
  "\<forall>F. 2 \<le> length [0, 2 :: real] \<and> 2 \<le> length [5, 5 :: real] \<and>
     welch_t_test F [0, 2] [5, 5] = Inr (Fin (- 4), Fin (F 1 (- 4) * 2)) \<and>
     welch_t_test F [5, 5] [0, 2] = Inr (Fin 4, Fin (F 1 (- 4) * 2)) \<and>
     feq (Fin (- 4)) (fneg (Fin 4)) \<and> feq (Fin (F 1 (- 4) * 2)) (Fin (F 1 (- 4) * 2))"
proof
  fix F :: "real \<Rightarrow> real \<Rightarrow> real"
  have a: "2 \<le> length [0, 2 :: real]" and b: "2 \<le> length [5, 5 :: real]" by simp_all
  show "2 \<le> length [0, 2 :: real] \<and> 2 \<le> length [5, 5 :: real] \<and>
     welch_t_test F [0, 2] [5, 5] = Inr (Fin (- 4), Fin (F 1 (- 4) * 2)) \<and>
     welch_t_test F [5, 5] [0, 2] = Inr (Fin 4, Fin (F 1 (- 4) * 2)) \<and>
     feq (Fin (- 4)) (fneg (Fin 4)) \<and> feq (Fin (F 1 (- 4) * 2)) (Fin (F 1 (- 4) * 2))"
    using welch_t_test_swap [OF a b, of F] by (simp add: welch_eval)
qed

text \<open>
  Where C3 as written fails: two samples of two equal observations each. Both variances and
  the difference of the means are zero, the statistic and the p-value are not-a-number, and
  not-a-number does not compare equal to its negation or to itself.
\<close>

theorem welch_t_test_swap_counterexample:
  "2 \<le> length [1, 1 :: real] \<and>
   welch_t_test (\<lambda>df x. 0) [1, 1] [1, 1] = Inr (NaN, NaN) \<and>
   \<not> feq NaN (fneg NaN) \<and> \<not> feq NaN NaN"
  by (simp add: welch_eval)

subsection \<open>What the cells leave unchanged\<close>

lemma assign_start_ts_same:
  "assign_start_ts df (to_datetime_column (column start_ts df)) = df"
  by (induction df) (simp_all add: assign_start_ts_def to_datetime_column_def column_def)

text \<open>
  Claim C9. With the three tables loaded, each of cell 11 (\<open>rank_by_count\<close>), cell 13
  (\<open>top_n\<close>) and cell 17 (\<open>select_window\<close>, \<open>partition_by_weather\<close>, the test) ends
  normally, leaves \<^verbatim>\<open>taxi_df\<close>, \<^verbatim>\<open>neighborhood_df\<close> and \<^verbatim>\<open>rides_df\<close> as they were, and binds
  its results to names of their own. Cell 17 writes the \<^verbatim>\<open>start_ts\<close> column back into
  \<^verbatim>\<open>rides_df\<close>, with the values it had.
\<close>

theorem pipeline_frame:
  assumes "taxi_df s = Some ops" and "neighborhood_df s = Some nbs" and "rides_df s = Some rides"
  shows
    "(\<exists>s'. cell_11 s = Inr s' \<and>
        taxi_df s' = Some ops \<and> neighborhood_df s' = Some nbs \<and> rides_df s' = Some rides \<and>
        sorted_taxi_df s' = Some (rank_by_count ops)) \<and>
     (\<exists>s'. cell_13 s = Inr s' \<and>
        taxi_df s' = Some ops \<and> neighborhood_df s' = Some nbs \<and> rides_df s' = Some rides \<and>
        top_neighborhoods s' = Some (top_n nbs 10)) \<and>
     (\<exists>s'. cell_17 F s = Inr s' \<and>
        taxi_df s' = Some ops \<and> neighborhood_df s' = Some nbs \<and> rides_df s' = Some rides \<and>
        rides_saturdays s' = Some (select_window rides 5 (Date 2017 11 1) (Date 2017 11 30)) \<and>
        good_weather_durations s' =
          Some (fst (partition_by_weather
                  (select_window rides 5 (Date 2017 11 1) (Date 2017 11 30)))) \<and>
        bad_weather_durations s' =
          Some (snd (partition_by_weather
                  (select_window rides 5 (Date 2017 11 1) (Date 2017 11 30)))))"
proof (intro conjI)
  show "\<exists>s'. cell_11 s = Inr s' \<and>
        taxi_df s' = Some ops \<and> neighborhood_df s' = Some nbs \<and> rides_df s' = Some rides \<and>
        sorted_taxi_df s' = Some (rank_by_count ops)"
    using assms by (simp add: cell_11_def)
next
  show "\<exists>s'. cell_13 s = Inr s' \<and>
        taxi_df s' = Some ops \<and> neighborhood_df s' = Some nbs \<and> rides_df s' = Some rides \<and>
        top_neighborhoods s' = Some (top_n nbs 10)"
    using assms by (simp add: cell_13_def)
next
  let ?sat = "select_window rides 5 (Date 2017 11 1) (Date 2017 11 30)"
  obtain t p where tp:
    "welch_t_test F (fst (partition_by_weather ?sat)) (snd (partition_by_weather ?sat)) = Inr (t, p)"
    using welch_t_test_Inr by blast
  show "\<exists>s'. cell_17 F s = Inr s' \<and>
        taxi_df s' = Some ops \<and> neighborhood_df s' = Some nbs \<and> rides_df s' = Some rides \<and>
        rides_saturdays s' = Some ?sat \<and>
        good_weather_durations s' = Some (fst (partition_by_weather ?sat)) \<and>
        bad_weather_durations s' = Some (snd (partition_by_weather ?sat))"
    using assms tp
    by (simp add: cell_17_def Let_def assign_start_ts_same rides_saturdays_of_def)
qed

text \<open>The three cells on the small tables.\<close>

theorem pipeline_frame_witness:
  "\<forall>F. \<exists>s1 s2 s3.
     cell_11 small_notebook = Inr s1 \<and> cell_13 small_notebook = Inr s2 \<and>
     cell_17 F small_notebook = Inr s3 \<and>
     taxi_df s1 = Some two_operators \<and> taxi_df s2 = Some two_operators \<and>
     taxi_df s3 = Some two_operators \<and>
     neighborhood_df s1 = Some three_neighborhoods \<and>
     neighborhood_df s2 = Some three_neighborhoods \<and>
     neighborhood_df s3 = Some three_neighborhoods \<and>
     rides_df s1 = Some two_rides \<and> rides_df s2 = Some two_rides \<and>
     rides_df s3 = Some two_rides \<and>
     sorted_taxi_df s1 = Some (rev two_operators) \<and>
     rides_saturdays s3 = Some [hd two_rides]"
proof
  fix F :: "real \<Rightarrow> real \<Rightarrow> real"
  have a: "taxi_df small_notebook = Some two_operators"
    and b: "neighborhood_df small_notebook = Some three_neighborhoods"
    and c: "rides_df small_notebook = Some two_rides"
    by (simp_all add: small_notebook_def fresh_kernel_def)
  have ranked: "rank_by_count two_operators = rev two_operators"
    by (simp add: two_operators_def rank_by_count_def sort_values_desc_def)
  have sat: "select_window two_rides 5 (Date 2017 11 1) (Date 2017 11 30) = [hd two_rides]"
    by (simp add: two_rides_def window_eval)
  from pipeline_frame [OF a b c, of F] obtain s1 s2 s3 where
    "cell_11 small_notebook = Inr s1" "cell_13 small_notebook = Inr s2"
    "cell_17 F small_notebook = Inr s3"
    "taxi_df s1 = Some two_operators" "taxi_df s2 = Some two_operators"
    "taxi_df s3 = Some two_operators"
    "neighborhood_df s1 = Some three_neighborhoods"
    "neighborhood_df s2 = Some three_neighborhoods"
    "neighborhood_df s3 = Some three_neighborhoods"
    "rides_df s1 = Some two_rides" "rides_df s2 = Some two_rides" "rides_df s3 = Some two_rides"
    "sorted_taxi_df s1 = Some (rank_by_count two_operators)"
    "rides_saturdays s3 = Some (select_window two_rides 5 (Date 2017 11 1) (Date 2017 11 30))"
    by blast
  then show "\<exists>s1 s2 s3.
     cell_11 small_notebook = Inr s1 \<and> cell_13 small_notebook = Inr s2 \<and>
     cell_17 F small_notebook = Inr s3 \<and>
     taxi_df s1 = Some two_operators \<and> taxi_df s2 = Some two_operators \<and>
     taxi_df s3 = Some two_operators \<and>
     neighborhood_df s1 = Some three_neighborhoods \<and>
     neighborhood_df s2 = Some three_neighborhoods \<and>
     neighborhood_df s3 = Some three_neighborhoods \<and>
     rides_df s1 = Some two_rides \<and> rides_df s2 = Some two_rides \<and>
     rides_df s3 = Some two_rides \<and>
     sorted_taxi_df s1 = Some (rev two_operators) \<and>
     rides_saturdays s3 = Some [hd two_rides]"
    unfolding ranked sat by blast
qed

end
